theory Spec2Isabelle
  imports Main
begin

section \<open>The Watchful construct of cdk-watchful (src/watchful.ts)\<close>

text \<open>
  The Watchful construct wires an optional SNS alarm topic, an optional CloudWatch
  dashboard and a list of extra alarm-action ARNs. Its constructor adds constructs to the
  construct tree and may throw after it has done so; both are explicit here: the tree is
  a state that every operation takes and returns, and a thrown error is the left summand
  of the constructor's result.

  The AWS CDK classes the file imports (topics, queues, subscriptions, dashboards, alarms,
  outputs) are collaborators from outside the repository. They are modelled as plain
  data whose operations record what was asked of them. Three of the calls the
  constructor makes can throw inside the CDK, depending on its arguments and on the tree:
  \<open>super(scope, id)\<close> (line 70), \<open>topic.addSubscription\<close> (lines 83 and 89) and
  \<open>new cloudwatch.Dashboard\<close> (line 101). What they reject is a parameter of the model,
  the record \<open>cdk\<close>, so that every theorem holds whatever the CDK rejects; \<open>cdk0\<close> is an
  instance to run the model with. The other constructions, \<open>new sns.Topic\<close> (line 75)
  and \<open>new CfnOutput\<close> (line 103), have fixed ids and happen in the scope of the new
  construct, which has no children before.
\<close>

subsection \<open>Collaborators\<close>

text \<open>An \<open>sqs.IQueue\<close>, named by its ARN.\<close>

datatype queue = Queue string

text \<open>
  An \<open>sns.ITopic\<close>: either one made by \<open>new sns.Topic(this, id, { displayName })\<close>, or a
  topic that the caller made elsewhere and handed in, named by its ARN.
\<close>

datatype topic = Topic string string | ExternalTopic string

datatype subscription = EmailSubscription string | SqsSubscription queue

text \<open>
  A widget is either the \<open>SectionWidget\<close> of \<open>./widget/section\<close>, built from
  \<open>titleLevel\<close>, \<open>titleMarkdown\<close> and \<open>quicklinks\<close> (a list of title and URL pairs,
  possibly undefined), or any other \<open>cloudwatch.IWidget\<close>.
\<close>

datatype widget =
    SectionWidget nat string "(string \<times> string) list option"
  | Widget string

record SectionOptions =
  links :: "(string \<times> string) list option"

text \<open>
  A \<open>cloudwatch.Dashboard\<close>. The source reads two things from it:
  \<open>dashboard.stack.region\<close> and the \<open>ref\<close> of its default child.
\<close>

record Dashboard =
  dashName :: "string option"
  stackRegion :: string
  defaultChildRef :: string
  widgets :: "widget list"

text \<open>
  An alarm action is an \<open>SnsAction\<close> on a topic or the object that \<open>alarmActionForArn\<close>
  builds from an ARN; an alarm holds the actions added to it, in order.
\<close>

datatype IAlarmAction = SnsAction topic | alarmActionForArn string

record Alarm =
  alarmActions :: "IAlarmAction list"

definition addAlarmAction :: "Alarm \<Rightarrow> IAlarmAction list \<Rightarrow> Alarm" where
  "addAlarmAction alarm actions = alarm\<lparr>alarmActions := alarmActions alarm @ actions\<rparr>"

text \<open>
  The construct tree, as far as the constructor touches it: the topics and dashboards
  whose construction completed, the subscriptions attached (each with the topic it is
  attached to) and the \<open>CfnOutput\<close>s (id and value), all in order of creation.
\<close>

record tree =
  topics :: "topic list"
  subscriptions :: "(topic \<times> subscription) list"
  dashboards :: "Dashboard list"
  outputs :: "(string \<times> string) list"

text \<open>
  An error is either the \<open>Error\<close> that line 98 of \<open>watchful.ts\<close> throws, with its message,
  or an error thrown inside the CDK, with the CDK's message.
\<close>

datatype error = Error string | CdkError string

text \<open>
  What the enclosing scope fixes for a dashboard created in it: the region of the stack
  and the reference that the dashboard's CloudFormation resource gets.
\<close>

record scope =
  region :: string
  cfnRef :: string

text \<open>
  What the CDK rejects. \<open>superError cdk sc i t\<close> is the message of the error that
  \<open>super(scope, id)\<close> throws for the scope \<open>sc\<close> and the id \<open>i\<close> in the tree \<open>t\<close>, if it
  throws; \<open>subscriptionError cdk tp sub t\<close> is the message of the error that
  \<open>tp.addSubscription(sub)\<close> throws in the tree \<open>t\<close>, if it throws;
  \<open>dashboardError cdk nm\<close> is the message of the error that
  \<open>new cloudwatch.Dashboard(this, 'Dashboard', { dashboardName: nm })\<close> throws, if it
  throws.
\<close>

record cdk =
  superError :: "scope \<Rightarrow> string \<Rightarrow> tree \<Rightarrow> string option"
  subscriptionError :: "topic \<Rightarrow> subscription \<Rightarrow> tree \<Rightarrow> string option"
  dashboardError :: "string option \<Rightarrow> string option"

definition addSubscription :: "cdk \<Rightarrow> topic \<Rightarrow> subscription \<Rightarrow> tree \<Rightarrow> error + tree" where
  "addSubscription c tp sub t =
     (case subscriptionError c tp sub t of
        Some m \<Rightarrow> Inl (CdkError m)
      | None \<Rightarrow> Inr (t\<lparr>subscriptions := subscriptions t @ [(tp, sub)]\<rparr>))"

definition new_Dashboard :: "cdk \<Rightarrow> scope \<Rightarrow> string option \<Rightarrow> error + Dashboard" where
  "new_Dashboard c sc nm =
     (case dashboardError c nm of
        Some m \<Rightarrow> Inl (CdkError m)
      | None \<Rightarrow>
          Inr \<lparr>dashName = nm, stackRegion = region sc, defaultChildRef = cfnRef sc,
               widgets = []\<rparr>)"

definition Dashboard_addWidgets :: "Dashboard \<Rightarrow> widget list \<Rightarrow> Dashboard" where
  "Dashboard_addWidgets d ws = d\<lparr>widgets := widgets d @ ws\<rparr>"

subsection \<open>WatchfulProps and Watchful\<close>

record WatchfulProps =
  alarmEmail :: "string option"
  alarmSqs :: "queue option"
  alarmSns :: "topic option"
  dashboardName :: "string option"
  alarmActionArns :: "string list option"
  dashboard :: "bool option"

text \<open>
  The three private fields of the class. The dashboard is held by reference: its position
  among the dashboards of the tree.
\<close>

record Watchful =
  dash :: "nat option"
  alarmTopic :: "topic option"
  this_alarmActionArns :: "string list"

text \<open>
  JavaScript truthiness of an optional string: \<open>undefined\<close> and the empty string are
  falsy. An optional object (a queue, a topic) is truthy exactly when it is defined.
\<close>

definition truthy :: "string option \<Rightarrow> bool" where
  "truthy s = (case s of None \<Rightarrow> False | Some v \<Rightarrow> v \<noteq> [])"

definition linkForDashboard :: "Dashboard \<Rightarrow> string" where
  "linkForDashboard d =
     ''https://console.aws.amazon.com/cloudwatch/home?region='' @ stackRegion d
       @ ''#dashboards:name='' @ defaultChildRef d"


subsection \<open>The constructor\<close>

text \<open>
  The constructor is the sequence of its statements; each group of statements is a
  definition, and \<open>Watchful_new\<close> runs them in the order of the source. An error thrown
  by \<open>super\<close>, by \<open>addSubscription\<close> or by \<open>new cloudwatch.Dashboard\<close> leaves the
  constructor at once, with the tree as it is by then.

  Lines 74 to 80, the first two \<open>if\<close>s: a topic is created when an email address or a
  queue is given and no topic is; a given topic replaces it. The result is the tree and
  the value of \<open>this.alarmTopic\<close> after line 80.
\<close>

definition resolveAlarmTopic :: "WatchfulProps \<Rightarrow> tree \<Rightarrow> tree \<times> topic option" where
  "resolveAlarmTopic props t =
     (let create = ((truthy (alarmEmail props) \<or> alarmSqs props \<noteq> None)
                     \<and> alarmSns props = None);
          t1 = (if create
                then t\<lparr>topics := topics t @ [Topic ''AlarmTopic'' ''Watchful Alarms'']\<rparr>
                else t);
          topic1 = (if create then Some (Topic ''AlarmTopic'' ''Watchful Alarms'') else None)
      in (t1, case alarmSns props of Some s \<Rightarrow> Some s | None \<Rightarrow> topic1))"

text \<open>Lines 82 to 86: \<open>if (props.alarmEmail && this.alarmTopic)\<close>.\<close>

definition subscribeEmail :: "cdk \<Rightarrow> WatchfulProps \<Rightarrow> topic option \<Rightarrow> tree \<Rightarrow> error + tree" where
  "subscribeEmail c props tpo t =
     (case alarmEmail props of
        Some em \<Rightarrow>
          (case tpo of
             Some tp \<Rightarrow> if em \<noteq> [] then addSubscription c tp (EmailSubscription em) t else Inr t
           | None \<Rightarrow> Inr t)
      | None \<Rightarrow> Inr t)"

text \<open>Lines 88 to 95: \<open>if (props.alarmSqs && this.alarmTopic)\<close>.\<close>

definition subscribeSqs :: "cdk \<Rightarrow> WatchfulProps \<Rightarrow> topic option \<Rightarrow> tree \<Rightarrow> error + tree" where
  "subscribeSqs c props tpo t =
     (case alarmSqs props of
        Some q \<Rightarrow>
          (case tpo of
             Some tp \<Rightarrow> addSubscription c tp (SqsSubscription q) t
           | None \<Rightarrow> Inr t)
      | None \<Rightarrow> Inr t)"

text \<open>
  Lines 97 to 106: the check of the dashboard name, then the dashboard and its output.
  \<open>this\<close> is the instance as it is before line 97, with \<open>dash\<close> still undefined.
\<close>

definition createDashboard ::
  "cdk \<Rightarrow> scope \<Rightarrow> WatchfulProps \<Rightarrow> Watchful \<Rightarrow> tree \<Rightarrow> tree \<times> (error + Watchful)" where
  "createDashboard c sc props this t =
     (if dashboard props = Some False \<and> truthy (dashboardName props)
      then (t, Inl (Error ''Dashboard name is provided but dashboard creation is disabled''))
      else if dashboard props \<noteq> Some False
      then (case new_Dashboard c sc (dashboardName props) of
              Inl e \<Rightarrow> (t, Inl e)
            | Inr d \<Rightarrow>
                (t\<lparr>dashboards := dashboards t @ [d],
                   outputs := outputs t @ [(''WatchfulDashboard'', linkForDashboard d)]\<rparr>,
                 Inr (this\<lparr>dash := Some (length (dashboards t))\<rparr>)))
      else (t, Inr this))"

text \<open>
  The constructor \<open>constructor(scope, id, props)\<close>: line 70, line 72, and the groups above.
\<close>

definition Watchful_new ::
  "cdk \<Rightarrow> scope \<Rightarrow> string \<Rightarrow> WatchfulProps \<Rightarrow> tree \<Rightarrow> tree \<times> (error + Watchful)" where
  "Watchful_new c sc i props t =
     (case superError c sc i t of
        Some m \<Rightarrow> (t, Inl (CdkError m))
      | None \<Rightarrow>
          (let arns = (case alarmActionArns props of None \<Rightarrow> [] | Some a \<Rightarrow> a);
               (t1, topic2) = resolveAlarmTopic props t
           in case subscribeEmail c props topic2 t1 of
                Inl e \<Rightarrow> (t1, Inl e)
              | Inr t2 \<Rightarrow>
                  (case subscribeSqs c props topic2 t2 of
                     Inl e \<Rightarrow> (t2, Inl e)
                   | Inr t3 \<Rightarrow>
                       createDashboard c sc props
                         \<lparr>dash = None, alarmTopic = topic2, this_alarmActionArns = arns\<rparr>
                         t3)))"

text \<open>\<open>this.dash?.addWidgets(...widgets)\<close>: nothing happens when \<open>dash\<close> is undefined.\<close>

definition addWidgets :: "Watchful \<Rightarrow> widget list \<Rightarrow> tree \<Rightarrow> tree" where
  "addWidgets this ws t =
     (case dash this of
        None \<Rightarrow> t
      | Some i \<Rightarrow>
          if i < length (dashboards t)
          then t\<lparr>dashboards := (dashboards t)[i := Dashboard_addWidgets (dashboards t ! i) ws]\<rparr>
          else t)"

definition addAlarm :: "Watchful \<Rightarrow> Alarm \<Rightarrow> Alarm" where
  "addAlarm this alarm =
     (let alarm1 = (case alarmTopic this of
                      Some tp \<Rightarrow> addAlarmAction alarm [SnsAction tp]
                    | None \<Rightarrow> alarm)
      in addAlarmAction alarm1 (map alarmActionForArn (this_alarmActionArns this)))"

definition addSection :: "Watchful \<Rightarrow> string \<Rightarrow> SectionOptions \<Rightarrow> tree \<Rightarrow> tree" where
  "addSection this title options t = addWidgets this [SectionWidget 1 title (links options)] t"

subsection \<open>Summaries used in the proofs\<close>

text \<open>
  What the statements of lines 74 to 95 come to, as functions of the props: the value of
  \<open>this.alarmTopic\<close> after line 80, the topics created by line 75, and the subscriptions
  asked for at lines 83 and 89.
\<close>

definition topicFor :: "WatchfulProps \<Rightarrow> topic option" where
  "topicFor props =
     (case alarmSns props of
        Some s \<Rightarrow> Some s
      | None \<Rightarrow>
          if truthy (alarmEmail props) \<or> alarmSqs props \<noteq> None
          then Some (Topic ''AlarmTopic'' ''Watchful Alarms'') else None)"

definition newTopics :: "WatchfulProps \<Rightarrow> topic list" where
  "newTopics props =
     (if (truthy (alarmEmail props) \<or> alarmSqs props \<noteq> None) \<and> alarmSns props = None
      then [Topic ''AlarmTopic'' ''Watchful Alarms''] else [])"

definition emailSubscriptions :: "WatchfulProps \<Rightarrow> (topic \<times> subscription) list" where
  "emailSubscriptions props =
     (case topicFor props of
        None \<Rightarrow> []
      | Some tp \<Rightarrow>
          (case alarmEmail props of
             Some em \<Rightarrow> if em \<noteq> [] then [(tp, EmailSubscription em)] else []
           | None \<Rightarrow> []))"

definition sqsSubscriptions :: "WatchfulProps \<Rightarrow> (topic \<times> subscription) list" where
  "sqsSubscriptions props =
     (case topicFor props of
        None \<Rightarrow> []
      | Some tp \<Rightarrow> (case alarmSqs props of Some q \<Rightarrow> [(tp, SqsSubscription q)] | None \<Rightarrow> []))"

subsection \<open>Concrete values to run the model with\<close>

text \<open>
  \<open>cdk0\<close> rejects what the CDK is known to reject of the constructor's calls. A dashboard
  name that is not empty must consist of letters, digits, \<open>-\<close> and \<open>_\<close>. A subscription
  is rejected when the topic already carries it, and the email address \<open>Resource\<close> is
  rejected on a topic made by \<open>new sns.Topic\<close>, because the subscription takes the
  address as its construct id and the topic already has a child of that id. The messages
  abbreviate the CDK's. The \<open>super\<close> call is accepted: the runs below construct under an
  id that the scope has no child of.
\<close>

definition dashboardNameChars :: string where
  "dashboardNameChars =
     ''ABCDEFGHIJKLMNOPQRSTUVWXYZabcdefghijklmnopqrstuvwxyz0123456789_-''"

definition cdk0 :: cdk where
  "cdk0 =
     \<lparr>superError = (\<lambda>sc i t. None),
      subscriptionError = (\<lambda>tp sub t.
          if (tp, sub) \<in> set (subscriptions t)
          then Some ''A subscription with this id already exists under the scope''
          else if sub = EmailSubscription ''Resource''
                  \<and> (case tp of Topic i d \<Rightarrow> True | ExternalTopic a \<Rightarrow> False)
          then Some ''A subscription with id Resource already exists under the scope''
          else None),
       dashboardError = (\<lambda>nm.
          case nm of
            None \<Rightarrow> None
          | Some n \<Rightarrow>
              if n \<noteq> [] \<and> \<not> list_all (\<lambda>ch. ch \<in> set dashboardNameChars) n
              then Some ''The value for field dashboardName contains invalid characters''
              else None)\<rparr>"

definition tree0 :: tree where
  "tree0 = \<lparr>topics = [], subscriptions = [], dashboards = [], outputs = []\<rparr>"

definition scope0 :: scope where
  "scope0 = \<lparr>region = ''eu-west-1'', cfnRef = ''WatchfulDashboard1''\<rparr>"

definition props0 :: WatchfulProps where
  "props0 = \<lparr>alarmEmail = None, alarmSqs = None, alarmSns = None, dashboardName = None,
             alarmActionArns = None, dashboard = None\<rparr>"

definition topic0 :: topic where
  "topic0 = ExternalTopic ''arn:aws:sns:eu-west-1:111122223333:alarms''"

definition queue0 :: queue where
  "queue0 = Queue ''arn:aws:sqs:eu-west-1:111122223333:alarms''"

definition props_email :: WatchfulProps where
  "props_email = props0\<lparr>alarmEmail := Some ''ops@example.com''\<rparr>"

definition props_sqs :: WatchfulProps where
  "props_sqs = props0\<lparr>alarmSqs := Some queue0\<rparr>"

definition props_email_sqs :: WatchfulProps where
  "props_email_sqs = props0\<lparr>alarmEmail := Some ''ops@example.com'', alarmSqs := Some queue0\<rparr>"


definition props_empty_email :: WatchfulProps where
  "props_empty_email = props0\<lparr>alarmEmail := Some []\<rparr>"

definition props_Resource :: WatchfulProps where
  "props_Resource = props0\<lparr>alarmEmail := Some ''Resource''\<rparr>"

definition props_no_dashboard :: WatchfulProps where
  "props_no_dashboard = props0\<lparr>dashboard := Some False\<rparr>"

definition props_named_no_dashboard :: WatchfulProps where
  "props_named_no_dashboard = props0\<lparr>dashboardName := Some ''ops'', dashboard := Some False\<rparr>"

definition props_bad_name :: WatchfulProps where
  "props_bad_name = props0\<lparr>dashboardName := Some ''my dashboard''\<rparr>"


lemmas Watchful_defs =
  Watchful_new_def resolveAlarmTopic_def subscribeEmail_def subscribeSqs_def
  createDashboard_def Let_def truthy_def addSubscription_def new_Dashboard_def
  linkForDashboard_def

lemmas cdk0_defs = cdk0_def dashboardNameChars_def

section \<open>What the constructor leaves in the tree\<close>

subsection \<open>The groups of statements\<close>

lemma resolveAlarmTopic_eq:
  "resolveAlarmTopic props t = (t\<lparr>topics := topics t @ newTopics props\<rparr>, topicFor props)"
  by (simp add: resolveAlarmTopic_def newTopics_def topicFor_def Let_def split: option.split)

lemma subscribeEmail_cases:
  "(\<exists>m. subscribeEmail c props (topicFor props) t = Inl (CdkError m))
   \<or> subscribeEmail c props (topicFor props) t
       = Inr (t\<lparr>subscriptions := subscriptions t @ emailSubscriptions props\<rparr>)"
  by (simp add: subscribeEmail_def emailSubscriptions_def addSubscription_def
      split: option.split)

lemma subscribeSqs_cases:
  "(\<exists>m. subscribeSqs c props (topicFor props) t = Inl (CdkError m))
   \<or> subscribeSqs c props (topicFor props) t
       = Inr (t\<lparr>subscriptions := subscriptions t @ sqsSubscriptions props\<rparr>)"
  by (simp add: subscribeSqs_def sqsSubscriptions_def addSubscription_def
      split: option.split)

lemma createDashboard_frame:
  "topics (fst (createDashboard c sc props this t)) = topics t
   \<and> subscriptions (fst (createDashboard c sc props this t)) = subscriptions t"
  by (simp add: createDashboard_def new_Dashboard_def split: option.split)

lemma createDashboard_Inr:
  "snd (createDashboard c sc props this t) = Inr w \<Longrightarrow>
     alarmTopic w = alarmTopic this \<and> this_alarmActionArns w = this_alarmActionArns this"
  by (auto simp add: createDashboard_def new_Dashboard_def split: option.splits if_splits)


lemma createDashboard_disabled:
  "dashboard props = Some False \<Longrightarrow>
     fst (createDashboard c sc props this t) = t
     \<and> snd (createDashboard c sc props this t)
         = (if truthy (dashboardName props)
            then Inl (Error ''Dashboard name is provided but dashboard creation is disabled'')
            else Inr this)"
  by (simp add: createDashboard_def)

lemma createDashboard_enabled:
  "dashboard props \<noteq> Some False \<Longrightarrow>
     createDashboard c sc props this t
       = (case dashboardError c (dashboardName props) of
            Some m \<Rightarrow> (t, Inl (CdkError m))
          | None \<Rightarrow>
              (t\<lparr>dashboards := dashboards t
                    @ [\<lparr>dashName = dashboardName props, stackRegion = region sc,
                         defaultChildRef = cfnRef sc, widgets = []\<rparr>],
                  outputs := outputs t
                    @ [(''WatchfulDashboard'',
                        ''https://console.aws.amazon.com/cloudwatch/home?region='' @ region sc
                          @ ''#dashboards:name='' @ cfnRef sc)]\<rparr>,
               Inr (this\<lparr>dash := Some (length (dashboards t))\<rparr>)))"
  by (simp add: createDashboard_def new_Dashboard_def linkForDashboard_def split: option.split)

subsection \<open>The constructor as a whole\<close>

text \<open>
  The constructor ends in one of four ways: \<open>super\<close> throws, the email subscription is
  rejected, the queue subscription is rejected, or all these calls (as far as they are
  made) are accepted and lines 97 to 106 decide.
\<close>

lemma Watchful_new_cases:
  "(\<exists>m. superError c sc i t = Some m
        \<and> Watchful_new c sc i props t = (t, Inl (CdkError m)))
   \<or> (\<exists>m. superError c sc i t = None
        \<and> Watchful_new c sc i props t
          = (t\<lparr>topics := topics t @ newTopics props\<rparr>, Inl (CdkError m)))
   \<or> (\<exists>m. superError c sc i t = None
        \<and> Watchful_new c sc i props t
          = (t\<lparr>topics := topics t @ newTopics props,
               subscriptions := subscriptions t @ emailSubscriptions props\<rparr>,
             Inl (CdkError m)))
   \<or> superError c sc i t = None
      \<and> Watchful_new c sc i props t
       = createDashboard c sc props
           \<lparr>dash = None, alarmTopic = topicFor props,
            this_alarmActionArns = (case alarmActionArns props of None \<Rightarrow> [] | Some a \<Rightarrow> a)\<rparr>
           (t\<lparr>topics := topics t @ newTopics props,
              subscriptions := subscriptions t @ emailSubscriptions props
                                 @ sqsSubscriptions props\<rparr>)"
proof (cases "superError c sc i t")
  case (Some m)
  then show ?thesis by (simp add: Watchful_new_def)
next
  case None
  let ?t1 = "t\<lparr>topics := topics t @ newTopics props\<rparr>"
  let ?t2 = "?t1\<lparr>subscriptions := subscriptions ?t1 @ emailSubscriptions props\<rparr>"
  consider (email) m where "subscribeEmail c props (topicFor props) ?t1 = Inl (CdkError m)"
    | (sqs) m where
        "subscribeEmail c props (topicFor props) ?t1 = Inr ?t2"
        "subscribeSqs c props (topicFor props) ?t2 = Inl (CdkError m)"
    | (both)
        "subscribeEmail c props (topicFor props) ?t1 = Inr ?t2"
        "subscribeSqs c props (topicFor props) ?t2
           = Inr (?t2\<lparr>subscriptions := subscriptions ?t2 @ sqsSubscriptions props\<rparr>)"
    using subscribeEmail_cases [of c props ?t1] subscribeSqs_cases [of c props ?t2] by blast
  then show ?thesis
  proof cases
    case email
    with None show ?thesis by (simp add: Watchful_new_def resolveAlarmTopic_eq)
  next
    case sqs
    with None show ?thesis by (simp add: Watchful_new_def resolveAlarmTopic_eq)
  next
    case both
    with None show ?thesis by (simp add: Watchful_new_def resolveAlarmTopic_eq)
  qed
qed

lemma Watchful_new_super:
  "superError c sc i t = Some m \<Longrightarrow> Watchful_new c sc i props t = (t, Inl (CdkError m))"
  by (simp add: Watchful_new_def)

lemma Watchful_new_topics:
  "superError c sc i t = None \<Longrightarrow>
   topics (fst (Watchful_new c sc i props t)) =
     topics t @ (if (truthy (alarmEmail props) \<or> alarmSqs props \<noteq> None) \<and> alarmSns props = None
                 then [Topic ''AlarmTopic'' ''Watchful Alarms''] else [])"
  using Watchful_new_cases [of c sc i t props]
  by (auto simp add: createDashboard_frame newTopics_def)

lemma Watchful_new_topics_given:
  "alarmSns props \<noteq> None \<or> (\<not> truthy (alarmEmail props) \<and> alarmSqs props = None) \<Longrightarrow>
   topics (fst (Watchful_new c sc i props t)) = topics t"
  using Watchful_new_cases [of c sc i t props]
  by (auto simp add: createDashboard_frame newTopics_def)

lemma Watchful_new_Inr_super:
  "snd (Watchful_new c sc i props t) = Inr w \<Longrightarrow> superError c sc i t = None"
  using Watchful_new_cases [of c sc i t props] by auto

lemma Watchful_new_subscriptions_Inr:
  "snd (Watchful_new c sc i props t) = Inr w \<Longrightarrow>
   subscriptions (fst (Watchful_new c sc i props t)) =
     subscriptions t @
     (case (case alarmSns props of Some s \<Rightarrow> Some s
            | None \<Rightarrow> if truthy (alarmEmail props) \<or> alarmSqs props \<noteq> None
                      then Some (Topic ''AlarmTopic'' ''Watchful Alarms'') else None) of
        None \<Rightarrow> []
      | Some tp \<Rightarrow>
          (case alarmEmail props of
             Some em \<Rightarrow> if em \<noteq> [] then [(tp, EmailSubscription em)] else []
           | None \<Rightarrow> []) @
          (case alarmSqs props of Some q \<Rightarrow> [(tp, SqsSubscription q)] | None \<Rightarrow> []))"
  using Watchful_new_cases [of c sc i t props]
  by (auto simp add: createDashboard_frame emailSubscriptions_def sqsSubscriptions_def
      topicFor_def split: option.splits)

lemma Watchful_new_subscriptions_Error:
  "snd (Watchful_new c sc i props t) = Inl (Error m) \<Longrightarrow>
   subscriptions (fst (Watchful_new c sc i props t)) =
     subscriptions t @
     (case (case alarmSns props of Some s \<Rightarrow> Some s
            | None \<Rightarrow> if truthy (alarmEmail props) \<or> alarmSqs props \<noteq> None
                      then Some (Topic ''AlarmTopic'' ''Watchful Alarms'') else None) of
        None \<Rightarrow> []
      | Some tp \<Rightarrow>
          (case alarmEmail props of
             Some em \<Rightarrow> if em \<noteq> [] then [(tp, EmailSubscription em)] else []
           | None \<Rightarrow> []) @
          (case alarmSqs props of Some q \<Rightarrow> [(tp, SqsSubscription q)] | None \<Rightarrow> []))"
  using Watchful_new_cases [of c sc i t props]
  by (auto simp add: createDashboard_frame emailSubscriptions_def sqsSubscriptions_def
      topicFor_def split: option.splits)

lemma Watchful_new_Error_super:
  "snd (Watchful_new c sc i props t) = Inl (Error m) \<Longrightarrow> superError c sc i t = None"
  using Watchful_new_cases [of c sc i t props] by auto

lemma Watchful_new_alarmTopic:
  "snd (Watchful_new c sc i props t) = Inr w \<Longrightarrow>
   alarmTopic w =
     (case alarmSns props of Some s \<Rightarrow> Some s
      | None \<Rightarrow> if truthy (alarmEmail props) \<or> alarmSqs props \<noteq> None
                then Some (Topic ''AlarmTopic'' ''Watchful Alarms'') else None)"
proof -
  assume "snd (Watchful_new c sc i props t) = Inr w"
  with Watchful_new_cases [of c sc i t props]
  have "snd (createDashboard c sc props
           \<lparr>dash = None, alarmTopic = topicFor props,
            this_alarmActionArns = (case alarmActionArns props of None \<Rightarrow> [] | Some a \<Rightarrow> a)\<rparr>
           (t\<lparr>topics := topics t @ newTopics props,
              subscriptions := subscriptions t @ emailSubscriptions props
                                 @ sqsSubscriptions props\<rparr>)) = Inr w"
    by auto
  from createDashboard_Inr [OF this] show ?thesis by (simp add: topicFor_def)
qed


lemma Watchful_new_disabled:
  "dashboard props = Some False \<Longrightarrow>
     dashboards (fst (Watchful_new c sc i props t)) = dashboards t
     \<and> outputs (fst (Watchful_new c sc i props t)) = outputs t
     \<and> (truthy (dashboardName props) \<longrightarrow>
          snd (Watchful_new c sc i props t)
            = Inl (Error ''Dashboard name is provided but dashboard creation is disabled'')
          \<or> (\<exists>m. snd (Watchful_new c sc i props t) = Inl (CdkError m)))
     \<and> (\<forall>w. snd (Watchful_new c sc i props t) = Inr w \<longrightarrow> dash w = None)"
  using Watchful_new_cases [of c sc i t props]
  by (auto simp add: createDashboard_disabled split: if_splits)

lemma Watchful_new_enabled:
  "dashboard props \<noteq> Some False \<Longrightarrow> Watchful_new c sc i props t = (t', Inr w) \<Longrightarrow>
     dash w = Some (length (dashboards t))
     \<and> dashboards t' = dashboards t
          @ [\<lparr>dashName = dashboardName props, stackRegion = region sc,
               defaultChildRef = cfnRef sc, widgets = []\<rparr>]
     \<and> outputs t' = outputs t
          @ [(''WatchfulDashboard'',
              ''https://console.aws.amazon.com/cloudwatch/home?region='' @ region sc
                @ ''#dashboards:name='' @ cfnRef sc)]"
  using Watchful_new_cases [of c sc i t props]
  by (auto simp add: createDashboard_enabled split: option.splits)

lemma Watchful_new_outputs:
  "(dashboards (fst (Watchful_new c sc i props t)) = dashboards t
    \<and> outputs (fst (Watchful_new c sc i props t)) = outputs t
    \<and> (\<forall>w. snd (Watchful_new c sc i props t) = Inr w \<longrightarrow> dashboard props = Some False))
   \<or> (dashboards (fst (Watchful_new c sc i props t)) = dashboards t
          @ [\<lparr>dashName = dashboardName props, stackRegion = region sc,
               defaultChildRef = cfnRef sc, widgets = []\<rparr>]
       \<and> outputs (fst (Watchful_new c sc i props t)) = outputs t
          @ [(''WatchfulDashboard'',
              ''https://console.aws.amazon.com/cloudwatch/home?region='' @ region sc
                @ ''#dashboards:name='' @ cfnRef sc)])"
  using Watchful_new_cases [of c sc i t props]
  by (cases "dashboard props = Some False")
     (auto simp add: createDashboard_enabled createDashboard_disabled split: option.splits)

lemma Watchful_new_Inl_frame:
  "snd (Watchful_new c sc i props t) = Inl e \<Longrightarrow>
     dashboards (fst (Watchful_new c sc i props t)) = dashboards t
     \<and> outputs (fst (Watchful_new c sc i props t)) = outputs t"
  using Watchful_new_cases [of c sc i t props]
  by (cases "dashboard props = Some False")
     (auto simp add: createDashboard_enabled createDashboard_disabled split: option.splits)

lemma Watchful_new_no_subscription:
  "superError c sc i t = None \<Longrightarrow> \<not> truthy (alarmEmail props) \<Longrightarrow> alarmSqs props = None \<Longrightarrow>
     Watchful_new c sc i props t
       = createDashboard c sc props
           \<lparr>dash = None, alarmTopic = alarmSns props,
            this_alarmActionArns = (case alarmActionArns props of None \<Rightarrow> [] | Some a \<Rightarrow> a)\<rparr>
           t"
  by (auto simp add: Watchful_new_def resolveAlarmTopic_def subscribeEmail_def
      subscribeSqs_def Let_def truthy_def split: option.splits)

lemma Watchful_new_subscriptions_none:
  "\<not> truthy (alarmEmail props) \<Longrightarrow> alarmSqs props = None \<Longrightarrow>
     subscriptions (fst (Watchful_new c sc i props t)) = subscriptions t"
  by (cases "superError c sc i t")
     (simp_all add: Watchful_new_no_subscription createDashboard_frame Watchful_new_super)

section \<open>Properties\<close>

subsection \<open>The validation error\<close>



subsection \<open>The alarm topic\<close>




text \<open>
  C3, as the code has it. After a successful construction the constructor has created at
  most one topic, a topic it created is the one the instance holds, and every
  subscription it attached is attached to the topic the instance holds. In particular,
  given a non-empty \<open>alarmEmail\<close> and an \<open>alarmSqs\<close> and no \<open>alarmSns\<close>, exactly one topic
  is created, the instance holds it, and the email address and the queue are subscribed
  to it, in this order.
\<close>

theorem one_topic_held:
  "Watchful_new c sc i props t = (t', Inr w) \<Longrightarrow>
     (\<exists>ts ss. topics t' = topics t @ ts \<and> length ts \<le> 1 \<and> set ts \<subseteq> set_option (alarmTopic w)
        \<and> subscriptions t' = subscriptions t @ ss \<and> fst ` set ss \<subseteq> set_option (alarmTopic w))
   \<and> (\<forall>em q. alarmEmail props = Some em \<and> em \<noteq> [] \<and> alarmSqs props = Some q
          \<and> alarmSns props = None \<longrightarrow>
        topics t' = topics t @ [Topic ''AlarmTopic'' ''Watchful Alarms'']
        \<and> alarmTopic w = Some (Topic ''AlarmTopic'' ''Watchful Alarms'')
        \<and> subscriptions t' = subscriptions t
            @ [(Topic ''AlarmTopic'' ''Watchful Alarms'', EmailSubscription em),
               (Topic ''AlarmTopic'' ''Watchful Alarms'', SqsSubscription q)])"
proof -
  assume r: "Watchful_new c sc i props t = (t', Inr w)"
  have t': "t' = fst (Watchful_new c sc i props t)" and w: "snd (Watchful_new c sc i props t) = Inr w"
    using r by simp_all
  note at = Watchful_new_alarmTopic [OF w]
  note su = Watchful_new_subscriptions_Inr [OF w]
  note tp = Watchful_new_topics [OF Watchful_new_Inr_super [OF w]]
  have general: "\<exists>ts ss. topics t' = topics t @ ts \<and> length ts \<le> 1
        \<and> set ts \<subseteq> set_option (alarmTopic w)
        \<and> subscriptions t' = subscriptions t @ ss \<and> fst ` set ss \<subseteq> set_option (alarmTopic w)"
    unfolding t' tp su at
    by (auto split: option.splits)
  have particular: "\<forall>em q. alarmEmail props = Some em \<and> em \<noteq> [] \<and> alarmSqs props = Some q
          \<and> alarmSns props = None \<longrightarrow>
        topics t' = topics t @ [Topic ''AlarmTopic'' ''Watchful Alarms'']
        \<and> alarmTopic w = Some (Topic ''AlarmTopic'' ''Watchful Alarms'')
        \<and> subscriptions t' = subscriptions t
            @ [(Topic ''AlarmTopic'' ''Watchful Alarms'', EmailSubscription em),
               (Topic ''AlarmTopic'' ''Watchful Alarms'', SqsSubscription q)]"
    unfolding t' tp su at
    by (simp add: truthy_def)
  from general particular show ?thesis by blast
qed

text \<open>The whole result of a construction with an email address and a queue.\<close>

theorem one_topic_held_witness:
  "Watchful_new cdk0 scope0 ''Watchful'' props_email_sqs tree0
     = (\<lparr>topics = [Topic ''AlarmTopic'' ''Watchful Alarms''],
         subscriptions = [(Topic ''AlarmTopic'' ''Watchful Alarms'', EmailSubscription ''ops@example.com''),
                          (Topic ''AlarmTopic'' ''Watchful Alarms'', SqsSubscription queue0)],
         dashboards = [\<lparr>dashName = None, stackRegion = ''eu-west-1'',
                        defaultChildRef = ''WatchfulDashboard1'', widgets = []\<rparr>],
         outputs = [(''WatchfulDashboard'',
           ''https://console.aws.amazon.com/cloudwatch/home?region=eu-west-1#dashboards:name=WatchfulDashboard1'')]\<rparr>,
        Inr \<lparr>dash = Some 0, alarmTopic = Some (Topic ''AlarmTopic'' ''Watchful Alarms''),
             this_alarmActionArns = []\<rparr>)
   \<and> alarmEmail props_email_sqs = Some ''ops@example.com''
   \<and> alarmSqs props_email_sqs = Some queue0
   \<and> alarmSns props_email_sqs = None"
  using one_topic_held [of cdk0 scope0 "''Watchful''" props_email_sqs tree0
      "fst (Watchful_new cdk0 scope0 ''Watchful'' props_email_sqs tree0)"
      "\<lparr>dash = Some 0, alarmTopic = Some (Topic ''AlarmTopic'' ''Watchful Alarms''),
        this_alarmActionArns = []\<rparr>"]
  by (simp add: props_email_sqs_def props0_def tree0_def scope0_def queue0_def cdk0_defs
      Watchful_defs)

text \<open>
  C3 as written fails for the empty email address: \<open>alarmEmail: ''\<close> and \<open>alarmSqs\<close> are
  given without \<open>alarmSns\<close>, the construction succeeds, and only the queue is subscribed
  to the new topic.
\<close>

theorem email_and_sqs_empty_email_counterexample:
  "alarmEmail (props_empty_email\<lparr>alarmSqs := Some queue0\<rparr>) = Some ''''
   \<and> alarmSqs (props_empty_email\<lparr>alarmSqs := Some queue0\<rparr>) = Some queue0
   \<and> alarmSns (props_empty_email\<lparr>alarmSqs := Some queue0\<rparr>) = None
   \<and> (\<exists>w. snd (Watchful_new cdk0 scope0 ''Watchful'' (props_empty_email\<lparr>alarmSqs := Some queue0\<rparr>) tree0)
           = Inr w)
   \<and> subscriptions (fst (Watchful_new cdk0 scope0 ''Watchful''
        (props_empty_email\<lparr>alarmSqs := Some queue0\<rparr>) tree0))
       = [(Topic ''AlarmTopic'' ''Watchful Alarms'', SqsSubscription queue0)]"
  by (simp add: props_empty_email_def props0_def tree0_def scope0_def queue0_def cdk0_defs
      Watchful_defs)

text \<open>
  C7, as the code has it. Given only a non-empty \<open>alarmEmail\<close> (no \<open>alarmSqs\<close>, no
  \<open>alarmSns\<close>), the constructor, once \<open>super\<close> has returned, creates exactly one topic and asks the CDK to subscribe
  the email address to it; when the CDK accepts, the subscription is attached, and when
  it rejects, nothing is subscribed and the constructor throws the CDK's error. The same
  holds for the queue when only \<open>alarmSqs\<close> is given.
\<close>

theorem single_destination:
  "(\<forall>em. alarmEmail props = Some em \<and> em \<noteq> [] \<and> alarmSqs props = None \<and> alarmSns props = None
        \<and> superError c sc i t = None
      \<longrightarrow> topics (fst (Watchful_new c sc i props t))
            = topics t @ [Topic ''AlarmTopic'' ''Watchful Alarms'']
        \<and> (subscriptionError c (Topic ''AlarmTopic'' ''Watchful Alarms'') (EmailSubscription em)
              (t\<lparr>topics := topics t @ [Topic ''AlarmTopic'' ''Watchful Alarms'']\<rparr>) = None
           \<longrightarrow> subscriptions (fst (Watchful_new c sc i props t))
                 = subscriptions t
                   @ [(Topic ''AlarmTopic'' ''Watchful Alarms'', EmailSubscription em)])
        \<and> (\<forall>m. subscriptionError c (Topic ''AlarmTopic'' ''Watchful Alarms'')
                  (EmailSubscription em)
                  (t\<lparr>topics := topics t @ [Topic ''AlarmTopic'' ''Watchful Alarms'']\<rparr>) = Some m
           \<longrightarrow> subscriptions (fst (Watchful_new c sc i props t)) = subscriptions t
               \<and> snd (Watchful_new c sc i props t) = Inl (CdkError m)))
   \<and> (\<forall>q. alarmEmail props = None \<and> alarmSqs props = Some q \<and> alarmSns props = None
        \<and> superError c sc i t = None
      \<longrightarrow> topics (fst (Watchful_new c sc i props t))
            = topics t @ [Topic ''AlarmTopic'' ''Watchful Alarms'']
        \<and> (subscriptionError c (Topic ''AlarmTopic'' ''Watchful Alarms'') (SqsSubscription q)
              (t\<lparr>topics := topics t @ [Topic ''AlarmTopic'' ''Watchful Alarms'']\<rparr>) = None
           \<longrightarrow> subscriptions (fst (Watchful_new c sc i props t))
                 = subscriptions t
                   @ [(Topic ''AlarmTopic'' ''Watchful Alarms'', SqsSubscription q)])
        \<and> (\<forall>m. subscriptionError c (Topic ''AlarmTopic'' ''Watchful Alarms'')
                  (SqsSubscription q)
                  (t\<lparr>topics := topics t @ [Topic ''AlarmTopic'' ''Watchful Alarms'']\<rparr>) = Some m
           \<longrightarrow> subscriptions (fst (Watchful_new c sc i props t)) = subscriptions t
               \<and> snd (Watchful_new c sc i props t) = Inl (CdkError m)))"
proof -
  have email: "topics (fst (Watchful_new c sc i props t))
            = topics t @ [Topic ''AlarmTopic'' ''Watchful Alarms'']
        \<and> (subscriptionError c (Topic ''AlarmTopic'' ''Watchful Alarms'') (EmailSubscription em)
              (t\<lparr>topics := topics t @ [Topic ''AlarmTopic'' ''Watchful Alarms'']\<rparr>) = None
           \<longrightarrow> subscriptions (fst (Watchful_new c sc i props t))
                 = subscriptions t
                   @ [(Topic ''AlarmTopic'' ''Watchful Alarms'', EmailSubscription em)])
        \<and> (\<forall>m. subscriptionError c (Topic ''AlarmTopic'' ''Watchful Alarms'')
                  (EmailSubscription em)
                  (t\<lparr>topics := topics t @ [Topic ''AlarmTopic'' ''Watchful Alarms'']\<rparr>) = Some m
           \<longrightarrow> subscriptions (fst (Watchful_new c sc i props t)) = subscriptions t
               \<and> snd (Watchful_new c sc i props t) = Inl (CdkError m))"
    if "alarmEmail props = Some em" "em \<noteq> []" "alarmSqs props = None" "alarmSns props = None"
      "superError c sc i t = None"
    for em
    using that
    by (auto simp add: Watchful_new_def resolveAlarmTopic_def subscribeEmail_def
        subscribeSqs_def addSubscription_def createDashboard_frame Let_def truthy_def
        split: option.splits)
  have sqs: "topics (fst (Watchful_new c sc i props t))
            = topics t @ [Topic ''AlarmTopic'' ''Watchful Alarms'']
        \<and> (subscriptionError c (Topic ''AlarmTopic'' ''Watchful Alarms'') (SqsSubscription q)
              (t\<lparr>topics := topics t @ [Topic ''AlarmTopic'' ''Watchful Alarms'']\<rparr>) = None
           \<longrightarrow> subscriptions (fst (Watchful_new c sc i props t))
                 = subscriptions t
                   @ [(Topic ''AlarmTopic'' ''Watchful Alarms'', SqsSubscription q)])
        \<and> (\<forall>m. subscriptionError c (Topic ''AlarmTopic'' ''Watchful Alarms'')
                  (SqsSubscription q)
                  (t\<lparr>topics := topics t @ [Topic ''AlarmTopic'' ''Watchful Alarms'']\<rparr>) = Some m
           \<longrightarrow> subscriptions (fst (Watchful_new c sc i props t)) = subscriptions t
               \<and> snd (Watchful_new c sc i props t) = Inl (CdkError m))"
    if "alarmEmail props = None" "alarmSqs props = Some q" "alarmSns props = None"
      "superError c sc i t = None"
    for q
    using that
    by (auto simp add: Watchful_new_def resolveAlarmTopic_def subscribeEmail_def
        subscribeSqs_def addSubscription_def createDashboard_frame Let_def truthy_def
        split: option.splits)
  from email sqs show ?thesis by blast
qed

text \<open>One construction with only an email address, one with only a queue.\<close>

theorem single_destination_witness:
  "alarmEmail props_email = Some ''ops@example.com'' \<and> alarmSqs props_email = None
   \<and> alarmSns props_email = None
   \<and> superError cdk0 scope0 ''Watchful'' tree0 = None
   \<and> subscriptionError cdk0 (Topic ''AlarmTopic'' ''Watchful Alarms'')
       (EmailSubscription ''ops@example.com'')
       (tree0\<lparr>topics := topics tree0 @ [Topic ''AlarmTopic'' ''Watchful Alarms'']\<rparr>) = None
   \<and> topics (fst (Watchful_new cdk0 scope0 ''Watchful'' props_email tree0))
       = [Topic ''AlarmTopic'' ''Watchful Alarms'']
   \<and> subscriptions (fst (Watchful_new cdk0 scope0 ''Watchful'' props_email tree0))
       = [(Topic ''AlarmTopic'' ''Watchful Alarms'', EmailSubscription ''ops@example.com'')]
   \<and> alarmEmail props_sqs = None \<and> alarmSqs props_sqs = Some queue0 \<and> alarmSns props_sqs = None
   \<and> subscriptionError cdk0 (Topic ''AlarmTopic'' ''Watchful Alarms'') (SqsSubscription queue0)
       (tree0\<lparr>topics := topics tree0 @ [Topic ''AlarmTopic'' ''Watchful Alarms'']\<rparr>) = None
   \<and> topics (fst (Watchful_new cdk0 scope0 ''Watchful'' props_sqs tree0))
       = [Topic ''AlarmTopic'' ''Watchful Alarms'']
   \<and> subscriptions (fst (Watchful_new cdk0 scope0 ''Watchful'' props_sqs tree0))
       = [(Topic ''AlarmTopic'' ''Watchful Alarms'', SqsSubscription queue0)]"
  using single_destination [of props_email cdk0 scope0 "''Watchful''" tree0]
    single_destination [of props_sqs cdk0 scope0 "''Watchful''" tree0]
  by (simp add: props_email_def props_sqs_def props0_def tree0_def scope0_def queue0_def
      cdk0_defs Watchful_defs)

text \<open>
  C7 as written fails in two ways. With \<open>alarmEmail: ''\<close> as the only destination option,
  no topic is created and nothing is subscribed. With \<open>alarmEmail: 'Resource'\<close> as the
  only option, the topic is created, the CDK rejects the subscription, nothing is
  subscribed and the constructor throws.
\<close>

theorem only_empty_email_counterexample:
  "alarmEmail props_empty_email = Some '''' \<and> alarmSqs props_empty_email = None
   \<and> alarmSns props_empty_email = None
   \<and> topics (fst (Watchful_new cdk0 scope0 ''Watchful'' props_empty_email tree0)) = []
   \<and> subscriptions (fst (Watchful_new cdk0 scope0 ''Watchful'' props_empty_email tree0)) = []
   \<and> alarmEmail props_Resource = Some ''Resource'' \<and> alarmSqs props_Resource = None
   \<and> alarmSns props_Resource = None
   \<and> Watchful_new cdk0 scope0 ''Watchful'' props_Resource tree0
       = (tree0\<lparr>topics := [Topic ''AlarmTopic'' ''Watchful Alarms'']\<rparr>,
          Inl (CdkError ''A subscription with id Resource already exists under the scope''))
   \<and> subscriptions (fst (Watchful_new cdk0 scope0 ''Watchful'' props_Resource tree0)) = []"
  by (simp add: props_empty_email_def props_Resource_def props0_def tree0_def scope0_def
      cdk0_defs Watchful_defs)

text \<open>
  C8. With none of \<open>alarmEmail\<close>, \<open>alarmSqs\<close> and \<open>alarmSns\<close> set, the constructor creates
  no topic and attaches no subscription, and the instance it returns holds no topic.
\<close>

theorem no_destination:
  "alarmEmail props = None \<Longrightarrow> alarmSqs props = None \<Longrightarrow> alarmSns props = None \<Longrightarrow>
     topics (fst (Watchful_new c sc i props t)) = topics t
   \<and> subscriptions (fst (Watchful_new c sc i props t)) = subscriptions t
   \<and> (\<forall>w. snd (Watchful_new c sc i props t) = Inr w \<longrightarrow> alarmTopic w = None)"
proof -
  assume a: "alarmEmail props = None" "alarmSqs props = None" "alarmSns props = None"
  have tp: "topics (fst (Watchful_new c sc i props t)) = topics t"
    using a by (simp add: Watchful_new_topics_given truthy_def)
  have su: "subscriptions (fst (Watchful_new c sc i props t)) = subscriptions t"
    using a by (simp add: Watchful_new_subscriptions_none truthy_def)
  have at: "\<forall>w. snd (Watchful_new c sc i props t) = Inr w \<longrightarrow> alarmTopic w = None"
    using a by (simp add: Watchful_new_alarmTopic truthy_def)
  from tp su at show ?thesis by blast
qed

text \<open>The default props.\<close>

theorem no_destination_witness:
  "alarmEmail props0 = None \<and> alarmSqs props0 = None \<and> alarmSns props0 = None
   \<and> topics (fst (Watchful_new cdk0 scope0 ''Watchful'' props0 tree0)) = []
   \<and> subscriptions (fst (Watchful_new cdk0 scope0 ''Watchful'' props0 tree0)) = []
   \<and> snd (Watchful_new cdk0 scope0 ''Watchful'' props0 tree0)
       = Inr \<lparr>dash = Some 0, alarmTopic = None, this_alarmActionArns = []\<rparr>"
  using no_destination [of props0 cdk0 scope0 "''Watchful''" tree0]
  by (simp add: props0_def tree0_def scope0_def cdk0_defs Watchful_defs)

text \<open>
  C10, as the code has it. The validation error is not atomic. For props with
  \<open>dashboard: false\<close>, a non-empty \<open>dashboardName\<close> and a non-empty \<open>alarmEmail\<close> or an
  \<open>alarmSqs\<close> (or both), the construction fails, and once \<open>super\<close> has returned it fails
  after the tree has been changed. A topic is created first when \<open>alarmSns\<close> is absent,
  and none when it is given. The error is
  the configuration error, or the CDK's when a subscription call throws first. Whenever
  it is the configuration error, the subscriptions for the non-empty email address and
  for the queue have been attached before it, to the new topic or to the given one.
\<close>

theorem error_after_wiring:
  "dashboard props = Some False \<Longrightarrow> dashboardName props = Some n \<Longrightarrow> n \<noteq> [] \<Longrightarrow>
   truthy (alarmEmail props) \<or> alarmSqs props \<noteq> None \<Longrightarrow>
   superError c sc i t = None \<Longrightarrow>
     topics (fst (Watchful_new c sc i props t))
       = topics t @ (case alarmSns props of
                       None \<Rightarrow> [Topic ''AlarmTopic'' ''Watchful Alarms'']
                     | Some s \<Rightarrow> [])
   \<and> (snd (Watchful_new c sc i props t)
         = Inl (Error ''Dashboard name is provided but dashboard creation is disabled'')
       \<or> (\<exists>m. snd (Watchful_new c sc i props t) = Inl (CdkError m)))
   \<and> (snd (Watchful_new c sc i props t)
         = Inl (Error ''Dashboard name is provided but dashboard creation is disabled'')
       \<longrightarrow> subscriptions (fst (Watchful_new c sc i props t))
             = subscriptions t
               @ (case alarmEmail props of
                    Some em \<Rightarrow>
                      if em \<noteq> []
                      then [(case alarmSns props of
                               None \<Rightarrow> Topic ''AlarmTopic'' ''Watchful Alarms'' | Some s \<Rightarrow> s,
                             EmailSubscription em)]
                      else []
                  | None \<Rightarrow> [])
               @ (case alarmSqs props of
                    Some q \<Rightarrow>
                      [(case alarmSns props of
                          None \<Rightarrow> Topic ''AlarmTopic'' ''Watchful Alarms'' | Some s \<Rightarrow> s,
                        SqsSubscription q)]
                  | None \<Rightarrow> [])
           \<and> subscriptions (fst (Watchful_new c sc i props t)) \<noteq> subscriptions t
           \<and> fst (Watchful_new c sc i props t) \<noteq> t)"
proof -
  assume d: "dashboard props = Some False" and n: "dashboardName props = Some n" "n \<noteq> []"
    and a: "truthy (alarmEmail props) \<or> alarmSqs props \<noteq> None"
    and s: "superError c sc i t = None"
  have tp: "topics (fst (Watchful_new c sc i props t))
       = topics t @ (case alarmSns props of
                       None \<Rightarrow> [Topic ''AlarmTopic'' ''Watchful Alarms'']
                     | Some s \<Rightarrow> [])"
    using a by (simp add: Watchful_new_topics [OF s] split: option.splits)
  have e: "snd (Watchful_new c sc i props t)
         = Inl (Error ''Dashboard name is provided but dashboard creation is disabled'')
       \<or> (\<exists>m. snd (Watchful_new c sc i props t) = Inl (CdkError m))"
    using Watchful_new_disabled [OF d, of c sc i t] n by (simp add: truthy_def)
  have su: "subscriptions (fst (Watchful_new c sc i props t))
             = subscriptions t
               @ (case alarmEmail props of
                    Some em \<Rightarrow>
                      if em \<noteq> []
                      then [(case alarmSns props of
                               None \<Rightarrow> Topic ''AlarmTopic'' ''Watchful Alarms'' | Some s \<Rightarrow> s,
                             EmailSubscription em)]
                      else []
                  | None \<Rightarrow> [])
               @ (case alarmSqs props of
                    Some q \<Rightarrow>
                      [(case alarmSns props of
                          None \<Rightarrow> Topic ''AlarmTopic'' ''Watchful Alarms'' | Some s \<Rightarrow> s,
                        SqsSubscription q)]
                  | None \<Rightarrow> [])
           \<and> subscriptions (fst (Watchful_new c sc i props t)) \<noteq> subscriptions t
           \<and> fst (Watchful_new c sc i props t) \<noteq> t"
    if r: "snd (Watchful_new c sc i props t)
         = Inl (Error ''Dashboard name is provided but dashboard creation is disabled'')"
  proof -
    have s1: "subscriptions (fst (Watchful_new c sc i props t))
             = subscriptions t
               @ (case alarmEmail props of
                    Some em \<Rightarrow>
                      if em \<noteq> []
                      then [(case alarmSns props of
                               None \<Rightarrow> Topic ''AlarmTopic'' ''Watchful Alarms'' | Some s \<Rightarrow> s,
                             EmailSubscription em)]
                      else []
                  | None \<Rightarrow> [])
               @ (case alarmSqs props of
                    Some q \<Rightarrow>
                      [(case alarmSns props of
                          None \<Rightarrow> Topic ''AlarmTopic'' ''Watchful Alarms'' | Some s \<Rightarrow> s,
                        SqsSubscription q)]
                  | None \<Rightarrow> [])"
      unfolding Watchful_new_subscriptions_Error [OF r]
      using a by (auto simp add: truthy_def split: option.splits)
    have s2: "subscriptions (fst (Watchful_new c sc i props t)) \<noteq> subscriptions t"
      unfolding s1 using a by (auto simp add: truthy_def split: option.splits)
    then have "fst (Watchful_new c sc i props t) \<noteq> t"
      by auto
    with s1 s2 show ?thesis by blast
  qed
  from tp e su show ?thesis by blast
qed

text \<open>
  An email address, a queue, a dashboard name and \<open>dashboard: false\<close>: the error comes
  with a tree that holds the new topic and both subscriptions.
\<close>

theorem error_after_wiring_witness:
  "dashboard (props_email_sqs\<lparr>dashboardName := Some ''ops'', dashboard := Some False\<rparr>)
     = Some False
   \<and> dashboardName (props_email_sqs\<lparr>dashboardName := Some ''ops'', dashboard := Some False\<rparr>)
     = Some ''ops''
   \<and> truthy (alarmEmail (props_email_sqs\<lparr>dashboardName := Some ''ops'', dashboard := Some False\<rparr>))
   \<and> superError cdk0 scope0 ''Watchful'' tree0 = None
   \<and> Watchful_new cdk0 scope0 ''Watchful''
       (props_email_sqs\<lparr>dashboardName := Some ''ops'', dashboard := Some False\<rparr>) tree0
     = (\<lparr>topics = [Topic ''AlarmTopic'' ''Watchful Alarms''],
         subscriptions =
           [(Topic ''AlarmTopic'' ''Watchful Alarms'', EmailSubscription ''ops@example.com''),
            (Topic ''AlarmTopic'' ''Watchful Alarms'', SqsSubscription queue0)],
         dashboards = [], outputs = []\<rparr>,
        Inl (Error ''Dashboard name is provided but dashboard creation is disabled''))"
  using error_after_wiring [of
      "props_email_sqs\<lparr>dashboardName := Some ''ops'', dashboard := Some False\<rparr>"
      "''ops''" cdk0 scope0 "''Watchful''" tree0]
  by (simp add: props_email_sqs_def props0_def tree0_def scope0_def queue0_def cdk0_defs
      Watchful_defs)

text \<open>
  C10 as written fails in three ways. With \<open>alarmEmail: ''\<close> set, the configuration
  error is thrown and the tree is unchanged: no topic, no subscription. With a non-empty
  \<open>alarmEmail\<close> and \<open>alarmSns\<close> given, no topic is created before the error. With
  \<open>alarmEmail: 'Resource'\<close>, the subscription call throws: no subscription is created and
  the error is the CDK's, not the configuration error.
\<close>

theorem error_without_wiring_counterexample:
  "dashboard (props_named_no_dashboard\<lparr>alarmEmail := Some ''''\<rparr>) = Some False
   \<and> dashboardName (props_named_no_dashboard\<lparr>alarmEmail := Some ''''\<rparr>) = Some ''ops''
   \<and> alarmEmail (props_named_no_dashboard\<lparr>alarmEmail := Some ''''\<rparr>) = Some ''''
   \<and> Watchful_new cdk0 scope0 ''Watchful'' (props_named_no_dashboard\<lparr>alarmEmail := Some ''''\<rparr>) tree0
     = (tree0, Inl (Error ''Dashboard name is provided but dashboard creation is disabled''))
   \<and> alarmEmail (props_named_no_dashboard\<lparr>alarmEmail := Some ''ops@example.com'',
                                            alarmSns := Some topic0\<rparr>)
     = Some ''ops@example.com''
   \<and> topics (fst (Watchful_new cdk0 scope0 ''Watchful''
        (props_named_no_dashboard\<lparr>alarmEmail := Some ''ops@example.com'',
                                   alarmSns := Some topic0\<rparr>) tree0)) = []
   \<and> Watchful_new cdk0 scope0 ''Watchful'' (props_named_no_dashboard\<lparr>alarmEmail := Some ''Resource''\<rparr>)
        tree0
     = (tree0\<lparr>topics := [Topic ''AlarmTopic'' ''Watchful Alarms'']\<rparr>,
        Inl (CdkError ''A subscription with id Resource already exists under the scope''))"
  by (simp add: props_named_no_dashboard_def props0_def tree0_def scope0_def topic0_def
      cdk0_defs Watchful_defs)

subsection \<open>Alarms\<close>

text \<open>
  C4. \<open>addAlarm\<close> appends to the alarm's actions one SNS action when the instance holds a
  topic, then one action per configured ARN, in the order of the list; so the number of
  actions grows by the number of ARNs, plus one when there is a topic. Without a topic
  and with no ARNs the alarm is unchanged.
\<close>

theorem addAlarm_actions:
  "alarmActions (addAlarm this alarm)
     = alarmActions alarm
       @ (case alarmTopic this of Some tp \<Rightarrow> [SnsAction tp] | None \<Rightarrow> [])
       @ map alarmActionForArn (this_alarmActionArns this)
   \<and> length (alarmActions (addAlarm this alarm))
     = length (alarmActions alarm) + (if alarmTopic this = None then 0 else 1)
       + length (this_alarmActionArns this)
   \<and> (alarmTopic this = None \<and> this_alarmActionArns this = [] \<longrightarrow> addAlarm this alarm = alarm)"
  by (simp add: addAlarm_def addAlarmAction_def Let_def split: option.splits)

text \<open>An instance with a topic and two ARNs, and one with neither.\<close>

theorem addAlarm_actions_witness:
  "alarmActions (addAlarm \<lparr>dash = None, alarmTopic = Some topic0,
                           this_alarmActionArns = [''arn:a'', ''arn:b'']\<rparr>
                         \<lparr>alarmActions = [alarmActionForArn ''arn:z'']\<rparr>)
     = [alarmActionForArn ''arn:z'', SnsAction topic0,
        alarmActionForArn ''arn:a'', alarmActionForArn ''arn:b'']
   \<and> alarmTopic \<lparr>dash = None, alarmTopic = None, this_alarmActionArns = []\<rparr> = None
   \<and> this_alarmActionArns \<lparr>dash = None, alarmTopic = None, this_alarmActionArns = []\<rparr> = []
   \<and> addAlarm \<lparr>dash = None, alarmTopic = None, this_alarmActionArns = []\<rparr>
        \<lparr>alarmActions = [alarmActionForArn ''arn:z'']\<rparr>
     = \<lparr>alarmActions = [alarmActionForArn ''arn:z'']\<rparr>"
  using addAlarm_actions [of "\<lparr>dash = None, alarmTopic = Some topic0,
                           this_alarmActionArns = [''arn:a'', ''arn:b'']\<rparr>"
      "\<lparr>alarmActions = [alarmActionForArn ''arn:z'']\<rparr>"]
    addAlarm_actions [of "\<lparr>dash = None, alarmTopic = None, this_alarmActionArns = []\<rparr>"
      "\<lparr>alarmActions = [alarmActionForArn ''arn:z'']\<rparr>"]
  by simp

subsection \<open>The dashboard\<close>

text \<open>
  C5, as the code has it. With \<open>props.dashboard\<close> omitted or \<open>true\<close>, a construction that
  succeeds has created one dashboard, which the instance holds, and has emitted one
  \<open>WatchfulDashboard\<close> output whose value is the console link of that dashboard; a
  construction that fails has created neither. It succeeds when \<open>super\<close> returns, the CDK
  accepts the dashboard name and no subscription is asked for. With \<open>dashboard: false\<close>, whether or
  not a \<open>dashboardName\<close> is given, no dashboard and no output are added to the tree, and
  an instance that is returned holds no dashboard.
\<close>

theorem dashboard_created_or_not:
  "(\<forall>w. (dashboard props = None \<or> dashboard props = Some True)
        \<and> snd (Watchful_new c sc i props t) = Inr w \<longrightarrow>
      dash w = Some (length (dashboards t))
      \<and> dashboards (fst (Watchful_new c sc i props t))
          = dashboards t
            @ [\<lparr>dashName = dashboardName props, stackRegion = region sc,
                 defaultChildRef = cfnRef sc, widgets = []\<rparr>]
      \<and> outputs (fst (Watchful_new c sc i props t))
          = outputs t
            @ [(''WatchfulDashboard'',
                linkForDashboard \<lparr>dashName = dashboardName props, stackRegion = region sc,
                                  defaultChildRef = cfnRef sc, widgets = []\<rparr>)])
   \<and> (\<forall>e. snd (Watchful_new c sc i props t) = Inl e \<longrightarrow>
        dashboards (fst (Watchful_new c sc i props t)) = dashboards t
        \<and> outputs (fst (Watchful_new c sc i props t)) = outputs t)
   \<and> ((dashboard props = None \<or> dashboard props = Some True)
        \<and> dashboardError c (dashboardName props) = None
        \<and> \<not> truthy (alarmEmail props) \<and> alarmSqs props = None
        \<and> superError c sc i t = None \<longrightarrow>
      (\<exists>w. snd (Watchful_new c sc i props t) = Inr w))
   \<and> (dashboard props = Some False \<longrightarrow>
      dashboards (fst (Watchful_new c sc i props t)) = dashboards t
      \<and> outputs (fst (Watchful_new c sc i props t)) = outputs t
      \<and> (\<forall>w. snd (Watchful_new c sc i props t) = Inr w \<longrightarrow> dash w = None))"
proof -
  have enabled: "\<forall>w. (dashboard props = None \<or> dashboard props = Some True)
        \<and> snd (Watchful_new c sc i props t) = Inr w \<longrightarrow>
      dash w = Some (length (dashboards t))
      \<and> dashboards (fst (Watchful_new c sc i props t))
          = dashboards t
            @ [\<lparr>dashName = dashboardName props, stackRegion = region sc,
                 defaultChildRef = cfnRef sc, widgets = []\<rparr>]
      \<and> outputs (fst (Watchful_new c sc i props t))
          = outputs t
            @ [(''WatchfulDashboard'',
                linkForDashboard \<lparr>dashName = dashboardName props, stackRegion = region sc,
                                  defaultChildRef = cfnRef sc, widgets = []\<rparr>)]"
  proof (intro allI impI)
    fix w
    assume a: "(dashboard props = None \<or> dashboard props = Some True)
        \<and> snd (Watchful_new c sc i props t) = Inr w"
    then have d: "dashboard props \<noteq> Some False" by auto
    from a have r: "Watchful_new c sc i props t = (fst (Watchful_new c sc i props t), Inr w)"
      by (simp add: prod_eq_iff)
    from Watchful_new_enabled [OF d r]
    show "dash w = Some (length (dashboards t))
      \<and> dashboards (fst (Watchful_new c sc i props t))
          = dashboards t
            @ [\<lparr>dashName = dashboardName props, stackRegion = region sc,
                 defaultChildRef = cfnRef sc, widgets = []\<rparr>]
      \<and> outputs (fst (Watchful_new c sc i props t))
          = outputs t
            @ [(''WatchfulDashboard'',
                linkForDashboard \<lparr>dashName = dashboardName props, stackRegion = region sc,
                                  defaultChildRef = cfnRef sc, widgets = []\<rparr>)]"
      by (simp add: linkForDashboard_def)
  qed
  have failed: "\<forall>e. snd (Watchful_new c sc i props t) = Inl e \<longrightarrow>
        dashboards (fst (Watchful_new c sc i props t)) = dashboards t
        \<and> outputs (fst (Watchful_new c sc i props t)) = outputs t"
    using Watchful_new_Inl_frame [of c sc i props t] by blast
  have succeeds: "(dashboard props = None \<or> dashboard props = Some True)
        \<and> dashboardError c (dashboardName props) = None
        \<and> \<not> truthy (alarmEmail props) \<and> alarmSqs props = None
        \<and> superError c sc i t = None \<longrightarrow>
      (\<exists>w. snd (Watchful_new c sc i props t) = Inr w)"
    by (auto simp add: Watchful_new_no_subscription createDashboard_enabled)
  have disabled: "dashboard props = Some False \<longrightarrow>
      dashboards (fst (Watchful_new c sc i props t)) = dashboards t
      \<and> outputs (fst (Watchful_new c sc i props t)) = outputs t
      \<and> (\<forall>w. snd (Watchful_new c sc i props t) = Inr w \<longrightarrow> dash w = None)"
    using Watchful_new_disabled [of props c sc i t] by blast
  show ?thesis
    by (rule conjI [OF enabled conjI [OF failed conjI [OF succeeds disabled]]])
qed

text \<open>
  The cases: \<open>dashboard\<close> omitted, \<open>true\<close>, and \<open>false\<close> without a name, all successful; a
  construction that fails.
\<close>

theorem dashboard_created_or_not_witness:
  "dashboard props0 = None \<and> dashboardError cdk0 (dashboardName props0) = None
   \<and> \<not> truthy (alarmEmail props0) \<and> alarmSqs props0 = None
   \<and> superError cdk0 scope0 ''Watchful'' tree0 = None
   \<and> Watchful_new cdk0 scope0 ''Watchful'' props0 tree0
     = (\<lparr>topics = [], subscriptions = [],
         dashboards = [\<lparr>dashName = None, stackRegion = ''eu-west-1'',
                        defaultChildRef = ''WatchfulDashboard1'', widgets = []\<rparr>],
         outputs = [(''WatchfulDashboard'',
           ''https://console.aws.amazon.com/cloudwatch/home?region=eu-west-1#dashboards:name=WatchfulDashboard1'')]\<rparr>,
        Inr \<lparr>dash = Some 0, alarmTopic = None, this_alarmActionArns = []\<rparr>)
   \<and> dashboard (props0\<lparr>dashboard := Some True\<rparr>) = Some True
   \<and> Watchful_new cdk0 scope0 ''Watchful'' (props0\<lparr>dashboard := Some True\<rparr>) tree0
     = Watchful_new cdk0 scope0 ''Watchful'' props0 tree0
   \<and> dashboard props_no_dashboard = Some False
   \<and> Watchful_new cdk0 scope0 ''Watchful'' props_no_dashboard tree0
     = (tree0, Inr \<lparr>dash = None, alarmTopic = None, this_alarmActionArns = []\<rparr>)
   \<and> Watchful_new cdk0 scope0 ''Watchful'' props_Resource tree0
     = (tree0\<lparr>topics := [Topic ''AlarmTopic'' ''Watchful Alarms'']\<rparr>,
        Inl (CdkError ''A subscription with id Resource already exists under the scope''))"
proof -
  have h0: "dashboard props0 = None \<and> dashboardError cdk0 (dashboardName props0) = None
      \<and> \<not> truthy (alarmEmail props0) \<and> alarmSqs props0 = None
      \<and> superError cdk0 scope0 ''Watchful'' tree0 = None"
    by (simp add: props0_def cdk0_defs truthy_def)
  have r0: "Watchful_new cdk0 scope0 ''Watchful'' props0 tree0
     = (\<lparr>topics = [], subscriptions = [],
         dashboards = [\<lparr>dashName = None, stackRegion = ''eu-west-1'',
                        defaultChildRef = ''WatchfulDashboard1'', widgets = []\<rparr>],
         outputs = [(''WatchfulDashboard'',
           ''https://console.aws.amazon.com/cloudwatch/home?region=eu-west-1#dashboards:name=WatchfulDashboard1'')]\<rparr>,
        Inr \<lparr>dash = Some 0, alarmTopic = None, this_alarmActionArns = []\<rparr>)"
    by (simp add: props0_def tree0_def scope0_def cdk0_defs Watchful_defs)
  have h1: "dashboard (props0\<lparr>dashboard := Some True\<rparr>) = Some True"
    by simp
  have r1: "Watchful_new cdk0 scope0 ''Watchful'' (props0\<lparr>dashboard := Some True\<rparr>) tree0
     = Watchful_new cdk0 scope0 ''Watchful'' props0 tree0"
    by (simp add: props0_def tree0_def scope0_def cdk0_defs Watchful_defs)
  have h2: "dashboard props_no_dashboard = Some False"
    by (simp add: props_no_dashboard_def)
  have r2: "Watchful_new cdk0 scope0 ''Watchful'' props_no_dashboard tree0
     = (tree0, Inr \<lparr>dash = None, alarmTopic = None, this_alarmActionArns = []\<rparr>)"
    by (simp add: props_no_dashboard_def props0_def tree0_def scope0_def cdk0_defs
        Watchful_defs)
  have r3: "Watchful_new cdk0 scope0 ''Watchful'' props_Resource tree0
     = (tree0\<lparr>topics := [Topic ''AlarmTopic'' ''Watchful Alarms'']\<rparr>,
        Inl (CdkError ''A subscription with id Resource already exists under the scope''))"
    by (simp add: props_Resource_def props0_def tree0_def scope0_def cdk0_defs Watchful_defs)
  from dashboard_created_or_not [of props0 cdk0 scope0 "''Watchful''" tree0]
    dashboard_created_or_not [of "props0\<lparr>dashboard := Some True\<rparr>" cdk0 scope0 "''Watchful''" tree0]
    dashboard_created_or_not [of props_no_dashboard cdk0 scope0 "''Watchful''" tree0]
    dashboard_created_or_not [of props_Resource cdk0 scope0 "''Watchful''" tree0]
    h0 r0 h1 r1 h2 r2 r3
  show ?thesis by blast
qed

text \<open>
  C5 as written fails where the CDK rejects the dashboard name: with \<open>dashboard\<close> omitted
  and \<open>dashboardName: 'my dashboard'\<close>, \<open>new cloudwatch.Dashboard\<close> throws at line 101, and
  the tree has no dashboard and no output.
\<close>

theorem bad_dashboard_name_counterexample:
  "dashboard props_bad_name = None
   \<and> dashboardName props_bad_name = Some ''my dashboard''
   \<and> Watchful_new cdk0 scope0 ''Watchful'' props_bad_name tree0
     = (tree0,
        Inl (CdkError ''The value for field dashboardName contains invalid characters''))
   \<and> dashboards (fst (Watchful_new cdk0 scope0 ''Watchful'' props_bad_name tree0)) = []
   \<and> outputs (fst (Watchful_new cdk0 scope0 ''Watchful'' props_bad_name tree0)) = []"
  by (simp add: props_bad_name_def props0_def tree0_def scope0_def cdk0_defs Watchful_defs)

text \<open>
  C6. Whenever dashboard creation is enabled (\<open>props.dashboard\<close> is not \<open>false\<close>) and the
  construction succeeds, the constructor has created a dashboard in the region of the
  stack, the instance holds it, and the output emitted has the value
  \<open>https://console.aws.amazon.com/cloudwatch/home?region=<region>#dashboards:name=<ref>\<close>,
  with the region of the dashboard's stack and the reference of the created dashboard
  in the two places; this is what \<open>linkForDashboard\<close> returns for that dashboard. And
  whatever the props and however the construction ends, it emits either no output or
  exactly this one.
\<close>

theorem dashboard_output_value:
  "(\<forall>w. dashboard props \<noteq> Some False \<and> snd (Watchful_new c sc i props t) = Inr w \<longrightarrow>
      (\<exists>d. dashboards (fst (Watchful_new c sc i props t)) = dashboards t @ [d]
         \<and> dash w = Some (length (dashboards t))
         \<and> stackRegion d = region sc \<and> defaultChildRef d = cfnRef sc
         \<and> linkForDashboard d
             = ''https://console.aws.amazon.com/cloudwatch/home?region='' @ stackRegion d
                 @ ''#dashboards:name='' @ defaultChildRef d
         \<and> outputs (fst (Watchful_new c sc i props t))
             = outputs t @ [(''WatchfulDashboard'',
                  ''https://console.aws.amazon.com/cloudwatch/home?region='' @ stackRegion d
                    @ ''#dashboards:name='' @ defaultChildRef d)]))
   \<and> (outputs (fst (Watchful_new c sc i props t)) = outputs t
       \<or> outputs (fst (Watchful_new c sc i props t))
           = outputs t @ [(''WatchfulDashboard'',
                ''https://console.aws.amazon.com/cloudwatch/home?region='' @ region sc
                  @ ''#dashboards:name='' @ cfnRef sc)])"
proof -
  have created: "\<forall>w. dashboard props \<noteq> Some False \<and> snd (Watchful_new c sc i props t) = Inr w \<longrightarrow>
      (\<exists>d. dashboards (fst (Watchful_new c sc i props t)) = dashboards t @ [d]
         \<and> dash w = Some (length (dashboards t))
         \<and> stackRegion d = region sc \<and> defaultChildRef d = cfnRef sc
         \<and> linkForDashboard d
             = ''https://console.aws.amazon.com/cloudwatch/home?region='' @ stackRegion d
                 @ ''#dashboards:name='' @ defaultChildRef d
         \<and> outputs (fst (Watchful_new c sc i props t))
             = outputs t @ [(''WatchfulDashboard'',
                  ''https://console.aws.amazon.com/cloudwatch/home?region='' @ stackRegion d
                    @ ''#dashboards:name='' @ defaultChildRef d)])"
  proof (intro allI impI)
    fix w
    assume a: "dashboard props \<noteq> Some False \<and> snd (Watchful_new c sc i props t) = Inr w"
    then have d: "dashboard props \<noteq> Some False" by simp
    from a have r: "Watchful_new c sc i props t = (fst (Watchful_new c sc i props t), Inr w)"
      by (simp add: prod_eq_iff)
    from Watchful_new_enabled [OF d r]
    show "\<exists>d. dashboards (fst (Watchful_new c sc i props t)) = dashboards t @ [d]
         \<and> dash w = Some (length (dashboards t))
         \<and> stackRegion d = region sc \<and> defaultChildRef d = cfnRef sc
         \<and> linkForDashboard d
             = ''https://console.aws.amazon.com/cloudwatch/home?region='' @ stackRegion d
                 @ ''#dashboards:name='' @ defaultChildRef d
         \<and> outputs (fst (Watchful_new c sc i props t))
             = outputs t @ [(''WatchfulDashboard'',
                  ''https://console.aws.amazon.com/cloudwatch/home?region='' @ stackRegion d
                    @ ''#dashboards:name='' @ defaultChildRef d)]"
      by (simp add: linkForDashboard_def)
  qed
  have any: "outputs (fst (Watchful_new c sc i props t)) = outputs t
       \<or> outputs (fst (Watchful_new c sc i props t))
           = outputs t @ [(''WatchfulDashboard'',
                ''https://console.aws.amazon.com/cloudwatch/home?region='' @ region sc
                  @ ''#dashboards:name='' @ cfnRef sc)]"
    using Watchful_new_outputs [of c sc i props t] by blast
  show ?thesis
    by (rule conjI [OF created any])
qed

text \<open>The output of a construction with the default props, in region \<open>eu-west-1\<close>.\<close>

theorem dashboard_output_value_witness:
  "dashboard props0 \<noteq> Some False
   \<and> snd (Watchful_new cdk0 scope0 ''Watchful'' props0 tree0)
     = Inr \<lparr>dash = Some 0, alarmTopic = None, this_alarmActionArns = []\<rparr>
   \<and> outputs (fst (Watchful_new cdk0 scope0 ''Watchful'' props0 tree0))
     = [(''WatchfulDashboard'',
         ''https://console.aws.amazon.com/cloudwatch/home?region=eu-west-1#dashboards:name=WatchfulDashboard1'')]"
  using dashboard_output_value [of props0 cdk0 scope0 "''Watchful''" tree0]
  by (simp add: props0_def tree0_def scope0_def cdk0_defs Watchful_defs)

text \<open>
  C9. An instance constructed with \<open>dashboard: false\<close> holds no dashboard; on it,
  \<open>addWidgets\<close> with any list of widgets and \<open>addSection\<close> with any title and options
  return the tree they were given, whatever that tree is. Neither has an error path.
\<close>

theorem addWidgets_disabled_noop:
  "Watchful_new c sc i props t = (t', Inr w) \<Longrightarrow> dashboard props = Some False \<Longrightarrow>
     dash w = None \<and> addWidgets w ws u = u \<and> addSection w title options u = u"
proof -
  assume r: "Watchful_new c sc i props t = (t', Inr w)" and d: "dashboard props = Some False"
  from r have "snd (Watchful_new c sc i props t) = Inr w" by simp
  with Watchful_new_disabled [OF d, of c sc i t] have "dash w = None" by blast
  then show ?thesis by (simp add: addWidgets_def addSection_def)
qed

text \<open>Two widgets and a section with a quick link, on an instance without a dashboard.\<close>

theorem addWidgets_disabled_noop_witness:
  "Watchful_new cdk0 scope0 ''Watchful'' props_no_dashboard tree0
     = (tree0, Inr \<lparr>dash = None, alarmTopic = None, this_alarmActionArns = []\<rparr>)
   \<and> dashboard props_no_dashboard = Some False
   \<and> addWidgets \<lparr>dash = None, alarmTopic = None, this_alarmActionArns = []\<rparr>
        [Widget ''graph'', Widget ''text''] tree0 = tree0
   \<and> addSection \<lparr>dash = None, alarmTopic = None, this_alarmActionArns = []\<rparr>
        ''Lambda'' \<lparr>links = Some [(''console'', ''https://example.com'')]\<rparr> tree0 = tree0"
proof -
  have r: "Watchful_new cdk0 scope0 ''Watchful'' props_no_dashboard tree0
     = (tree0, Inr \<lparr>dash = None, alarmTopic = None, this_alarmActionArns = []\<rparr>)"
    by (simp add: props_no_dashboard_def props0_def tree0_def scope0_def cdk0_defs
        Watchful_defs)
  have d: "dashboard props_no_dashboard = Some False"
    by (simp add: props_no_dashboard_def props0_def)
  from addWidgets_disabled_noop [OF r d] r d show ?thesis by simp
qed

end
